theory Spec2Isabelle
  imports Complex_Main
begin

section \<open>Numbers, exceptions and wallet errors\<close>

text \<open>
  A TypeScript \<open>number\<close> is modelled by a rational: every finite double is one.
  Sums are exact; rounding, \<open>NaN\<close> and the infinities are outside the model, so every
  statement below is about the value the code has computed (the total amount, a
  balance), never about how a decimal literal is rounded on its way in.
\<close>

type_synonym number = rat

text \<open>\<open>Number.isInteger\<close>: the value has no fractional part.\<close>

definition isInteger :: "number \<Rightarrow> bool" where
  "isInteger x = (of_int \<lfloor>x\<rfloor> = x)"

text \<open>\<open>throw new Error(msg)\<close>: the exception carries its message.\<close>

datatype exn = Error string

text \<open>
  Modelled from the spec: the enumeration \<open>WalletErrorCode\<close> and the class
  \<open>WalletError\<close> of \<open>WalletError.ts\<close>, which is not among the sources. The codes are
  the error kinds of the spec (section 7) under the names the sources use; a
  \<open>WalletError\<close> is a code with an optional custom message (empty when not given), and
  \<open>SUCCESS\<close> is the exported constant \<open>new WalletError(WalletErrorCode.SUCCESS)\<close>.
\<close>

datatype WalletErrorCode =
    SUCCESS
  | ADDRESS_NOT_VALID
  | ADDRESS_IS_INTEGRATED
  | ADDRESS_NOT_IN_WALLET
  | NO_DESTINATIONS_GIVEN
  | AMOUNT_IS_ZERO
  | NEGATIVE_VALUE_GIVEN
  | NON_INTEGER_GIVEN
  | CONFLICTING_PAYMENT_IDS
  | FEE_TOO_SMALL
  | NOT_ENOUGH_BALANCE
  | WILL_OVERFLOW
  | MIXIN_TOO_SMALL
  | MIXIN_TOO_BIG
  | PAYMENT_ID_WRONG_LENGTH
  | PAYMENT_ID_INVALID
  | INVALID_MNEMONIC
  | INVALID_KEY
  | DAEMON_OFFLINE
  | BLOCK_NOT_FOUND

record WalletError =
  errorCode :: WalletErrorCode
  customMessage :: string

definition new_WalletError :: "WalletErrorCode \<Rightarrow> string \<Rightarrow> WalletError" where
  "new_WalletError code msg = \<lparr>errorCode = code, customMessage = msg\<rparr>"

definition SUCCESS_const :: WalletError where
  "SUCCESS_const = new_WalletError SUCCESS []"

section \<open>JavaScript maps\<close>

text \<open>
  A \<open>Map<K, V>\<close> is the list of its entries in iteration (insertion) order. \<open>set\<close>
  overwrites the value of a key that is present, in place, and appends a new key;
  \<open>new Map(entries)\<close> sets the entries one after the other; \<open>get\<close> is \<open>map_of\<close>.
  The keys of a \<open>Map\<close> are distinct.
\<close>

fun Map_set :: "('k \<times> 'v) list \<Rightarrow> 'k \<Rightarrow> 'v \<Rightarrow> ('k \<times> 'v) list" where
  "Map_set [] k v = [(k, v)]"
| "Map_set ((k', v') # m) k v =
     (if k' = k then (k, v) # m else (k', v') # Map_set m k v)"

definition new_Map :: "('k \<times> 'v) list \<Rightarrow> ('k \<times> 'v) list" where
  "new_Map entries = foldl (\<lambda>m (k, v). Map_set m k v) [] entries"

section \<open>Types.ts: the wallet's view of a transaction\<close>

record TransfersJSON =
  publicKey :: string
  amount :: number

record TransactionJSON =
  json_transfers :: "TransfersJSON list"
  json_hash :: string
  json_fee :: number
  json_blockHeight :: number
  json_timestamp :: number
  json_paymentID :: string
  json_unlockTime :: number
  json_isCoinbaseTransaction :: bool

record Transaction =
  transfers :: "(string \<times> number) list"
  hash :: string
  fee :: number
  blockHeight :: number
  timestamp :: number
  paymentID :: string
  unlockTime :: number
  isCoinbaseTransaction :: bool

text \<open>
  Modelled from the spec: \<open>transfersToVector\<close> of \<open>JsonSerialization.ts\<close>, which is
  not among the sources. The spec gives the serialised form of \<open>transfers\<close> as the
  array of \<open>{publicKey, amount}\<close>, one per entry of the map; the entries are taken
  in the map's iteration order.
\<close>

definition transfersToVector :: "(string \<times> number) list \<Rightarrow> TransfersJSON list" where
  "transfersToVector m = map (\<lambda>(k, v). \<lparr>publicKey = k, amount = v\<rparr>) m"

text \<open>
  \<open>Transaction.fromJSON\<close> is \<open>Object.assign(transaction, json, {...})\<close>: the own
  properties of \<open>json\<close> are copied first, then those of the literal. The literal sets
  \<open>transfers\<close> to the revived map and repeats \<open>hash\<close> to \<open>unlockTime\<close>; its last key
  is spelt \<open>isCoinbaseTransactions\<close>, so the field \<open>isCoinbaseTransaction\<close> keeps the
  value copied from \<open>json\<close>. The record holds the declared fields of the class; the
  misspelt property is read by no method and is not part of it.
\<close>

definition Transaction_fromJSON :: "TransactionJSON \<Rightarrow> Transaction" where
  "Transaction_fromJSON json =
     \<lparr>transfers = new_Map (map (\<lambda>x. (publicKey x, amount x)) (json_transfers json)),
      hash = json_hash json,
      fee = json_fee json,
      blockHeight = json_blockHeight json,
      timestamp = json_timestamp json,
      paymentID = json_paymentID json,
      unlockTime = json_unlockTime json,
      isCoinbaseTransaction = json_isCoinbaseTransaction json\<rparr>"

definition Transaction_toJSON :: "Transaction \<Rightarrow> TransactionJSON" where
  "Transaction_toJSON t =
     \<lparr>json_transfers = transfersToVector (transfers t),
      json_hash = hash t,
      json_fee = fee t,
      json_blockHeight = blockHeight t,
      json_timestamp = timestamp t,
      json_paymentID = paymentID t,
      json_unlockTime = unlockTime t,
      json_isCoinbaseTransaction = isCoinbaseTransaction t\<rparr>"

section \<open>SubWallets.ts\<close>

text \<open>
  The class \<open>SubWallet\<close> (\<open>SubWallet.ts\<close>) is not among the sources. A subwallet is a
  value of a type parameter \<open>'sw\<close>, its serialised form a value of \<open>'swj\<close>, and each
  method of \<open>SubWallet\<close> that \<open>SubWallets\<close> calls is an argument of the function that
  calls it: \<open>getBalance\<close>, \<open>hasKeyImage\<close>, \<open>removeForkedTransactions\<close>, \<open>toJSON\<close>,
  \<open>fromJSON\<close> and the field \<open>publicSpendKey\<close> of the serialised form.
\<close>

record TxPrivateKeysJSON =
  transactionHash :: string
  txPrivateKey :: string

record 'swj SubWalletsJSON =
  json_publicSpendKeys :: "string list"
  json_subWallet :: "'swj list"
  json_transactions :: "TransactionJSON list"
  json_lockedTransactions :: "TransactionJSON list"
  json_privateViewKey :: string
  json_isViewWallet :: bool
  json_txPrivateKeys :: "TxPrivateKeysJSON list"

record 'sw SubWallets =
  isViewWallet :: bool
  publicSpendKeys :: "string list"
  subWallets :: "(string \<times> 'sw) list"
  transactions :: "Transaction list"
  lockedTransactions :: "Transaction list"
  privateViewKey :: string
  transactionPrivateKeys :: "(string \<times> string) list"

text \<open>
  Modelled from the spec: \<open>txPrivateKeysToVector\<close> of \<open>JsonSerialization.ts\<close>, which
  is not among the sources. The spec gives \<open>txPrivateKeys\<close> as the array of
  \<open>{transactionHash, txPrivateKey}\<close>, one per entry of the map.
\<close>

definition txPrivateKeysToVector :: "(string \<times> string) list \<Rightarrow> TxPrivateKeysJSON list" where
  "txPrivateKeysToVector m = map (\<lambda>(h, k). \<lparr>transactionHash = h, txPrivateKey = k\<rparr>) m"

text \<open>
  \<open>SubWallets.fromJSON\<close>, again an \<open>Object.assign(subWallets, json, {...})\<close>: every
  declared field is set by the literal.
\<close>

definition SubWallets_fromJSON ::
  "('swj \<Rightarrow> 'sw) \<Rightarrow> ('swj \<Rightarrow> string) \<Rightarrow> 'swj SubWalletsJSON \<Rightarrow> 'sw SubWallets" where
  "SubWallets_fromJSON SubWallet_fromJSON json_publicSpendKey json =
     \<lparr>isViewWallet = json_isViewWallet json,
      publicSpendKeys = json_publicSpendKeys json,
      subWallets =
        new_Map (map (\<lambda>x. (json_publicSpendKey x, SubWallet_fromJSON x)) (json_subWallet json)),
      transactions = map Transaction_fromJSON (json_transactions json),
      lockedTransactions = map Transaction_fromJSON (json_lockedTransactions json),
      privateViewKey = json_privateViewKey json,
      transactionPrivateKeys =
        new_Map (map (\<lambda>x. (transactionHash x, txPrivateKey x)) (json_txPrivateKeys json))\<rparr>"

definition SubWallets_toJSON :: "('sw \<Rightarrow> 'swj) \<Rightarrow> 'sw SubWallets \<Rightarrow> 'swj SubWalletsJSON" where
  "SubWallets_toJSON SubWallet_toJSON W =
     \<lparr>json_publicSpendKeys = publicSpendKeys W,
      json_subWallet = map (\<lambda>x. SubWallet_toJSON x) (map snd (subWallets W)),
      json_transactions = map Transaction_toJSON (transactions W),
      json_lockedTransactions = map Transaction_toJSON (lockedTransactions W),
      json_privateViewKey = privateViewKey W,
      json_isViewWallet = isViewWallet W,
      json_txPrivateKeys = txPrivateKeysToVector (transactionPrivateKeys W)\<rparr>"

text \<open>
  \<open>addTransaction\<close> mutates the locked list before it may throw, so the model returns
  the state the call leaves behind together with the exception, if any.
  \<open>_.remove(array, predicate)\<close> deletes, in place, every element the predicate holds
  of.
\<close>

definition addTransaction :: "'sw SubWallets \<Rightarrow> Transaction \<Rightarrow> 'sw SubWallets \<times> exn option" where
  "addTransaction W transaction =
     (let W1 = W\<lparr>lockedTransactions :=
                   filter (\<lambda>tx. \<not> hash tx = hash transaction) (lockedTransactions W)\<rparr>
      in if list_ex (\<lambda>tx. hash tx = hash transaction) (transactions W1)
         then (W1, Some (Error (''Transaction '' @ hash transaction @
                                 '' was added to the wallet twice!'')))
         else (W1\<lparr>transactions := transactions W1 @ [transaction]\<rparr>, None))"

definition removeForkedTransactions ::
  "('sw \<Rightarrow> number \<Rightarrow> 'sw) \<Rightarrow> 'sw SubWallets \<Rightarrow> number \<Rightarrow> 'sw SubWallets" where
  "removeForkedTransactions SubWallet_removeForkedTransactions W forkHeight =
     W\<lparr>transactions := filter (\<lambda>tx. \<not> blockHeight tx \<ge> forkHeight) (transactions W),
       subWallets :=
         map (\<lambda>(pubKey, subWallet).
                (pubKey, SubWallet_removeForkedTransactions subWallet forkHeight))
             (subWallets W)\<rparr>"

fun getKeyImageOwner_loop ::
  "('sw \<Rightarrow> string \<Rightarrow> bool) \<Rightarrow> (string \<times> 'sw) list \<Rightarrow> string \<Rightarrow> bool \<times> string" where
  "getKeyImageOwner_loop hasKeyImage [] keyImage = (False, [])"
| "getKeyImageOwner_loop hasKeyImage ((pubKey, subWallet) # rest) keyImage =
     (if hasKeyImage subWallet keyImage then (True, pubKey)
      else getKeyImageOwner_loop hasKeyImage rest keyImage)"

definition getKeyImageOwner ::
  "('sw \<Rightarrow> string \<Rightarrow> bool) \<Rightarrow> 'sw SubWallets \<Rightarrow> string \<Rightarrow> bool \<times> string" where
  "getKeyImageOwner hasKeyImage W keyImage =
     (if isViewWallet W then (False, [])
      else getKeyImageOwner_loop hasKeyImage (subWallets W) keyImage)"

text \<open>
  \<open>getBalance\<close>: the optional argument is \<open>None\<close> when it is not given (an empty
  array is given, and is summed over). The loop carries the two running sums and
  throws at the first key without a subwallet.
\<close>

fun getBalance_loop ::
  "('sw \<Rightarrow> number \<Rightarrow> number \<times> number) \<Rightarrow> (string \<times> 'sw) list \<Rightarrow> number \<Rightarrow>
   string list \<Rightarrow> number \<Rightarrow> number \<Rightarrow> exn + (number \<times> number)" where
  "getBalance_loop SubWallet_getBalance m currentHeight [] unlockedBalance lockedBalance =
     Inr (unlockedBalance, lockedBalance)"
| "getBalance_loop SubWallet_getBalance m currentHeight (publicSpendKey # rest)
       unlockedBalance lockedBalance =
     (case map_of m publicSpendKey of
        None \<Rightarrow> Inl (Error ''Subwallet not found!'')
      | Some subWallet \<Rightarrow>
          (case SubWallet_getBalance subWallet currentHeight of
             (unlocked, locked) \<Rightarrow>
               getBalance_loop SubWallet_getBalance m currentHeight rest
                 (unlockedBalance + unlocked) (lockedBalance + locked)))"

definition getBalance ::
  "('sw \<Rightarrow> number \<Rightarrow> number \<times> number) \<Rightarrow> 'sw SubWallets \<Rightarrow> number \<Rightarrow>
   string list option \<Rightarrow> exn + (number \<times> number)" where
  "getBalance SubWallet_getBalance W currentHeight subWalletsToTakeFrom =
     getBalance_loop SubWallet_getBalance (subWallets W) currentHeight
       (case subWalletsToTakeFrom of None \<Rightarrow> publicSpendKeys W | Some keys \<Rightarrow> keys) 0 0"

section \<open>ValidateParameters.ts\<close>

text \<open>
  \<open>CryptoUtils.decodeAddress\<close> belongs to an external library: it is an argument,
  returning the decoded address or (\<open>Inl\<close>) the text of the error it throws. Only the
  fields the validators read are kept.
\<close>

record DecodedAddress =
  paymentId :: string
  publicSpendKey :: string


text \<open>\<open>_.sumBy(array, f)\<close>: the sum of \<open>f\<close> over the array, from 0.\<close>

definition sumBy :: "'a list \<Rightarrow> ('a \<Rightarrow> number) \<Rightarrow> number" where
  "sumBy xs f = foldl (\<lambda>acc x. acc + f x) 0 xs"

text \<open>The total the transfer needs: the amounts of the destinations, plus the fee.\<close>

definition totalAmount :: "(string \<times> number) list \<Rightarrow> number \<Rightarrow> number" where
  "totalAmount destinations fee' = sumBy destinations (\<lambda>(destination, amount). amount) + fee'"

text \<open>
  \<open>validateAmount\<close>; \<open>config.minimumFee\<close> (\<open>Config.ts\<close> is not among the sources) is
  an argument. An exception of \<open>getBalance\<close> is not caught.
\<close>

definition validateAmount ::
  "number \<Rightarrow> ('sw \<Rightarrow> number \<Rightarrow> number \<times> number) \<Rightarrow> (string \<times> number) list \<Rightarrow> number \<Rightarrow>
   string list \<Rightarrow> 'sw SubWallets \<Rightarrow> number \<Rightarrow> exn + WalletError" where
  "validateAmount minimumFee SubWallet_getBalance destinations fee' subWalletsToTakeFrom
       W currentHeight =
     (if fee' < minimumFee then Inr (new_WalletError FEE_TOO_SMALL [])
      else if isInteger fee' then Inr (new_WalletError NON_INTEGER_GIVEN [])
      else
        (case getBalance SubWallet_getBalance W currentHeight (Some subWalletsToTakeFrom) of
           Inl e \<Rightarrow> Inl e
         | Inr (availableBalance, lockedBalance) \<Rightarrow>
             if totalAmount destinations fee' > availableBalance
             then Inr (new_WalletError NOT_ENOUGH_BALANCE [])
             else if totalAmount destinations fee' \<ge> 2 ^ 64
             then Inr (new_WalletError WILL_OVERFLOW [])
             else Inr SUCCESS_const))"

section \<open>ConventionalDaemon.ts\<close>






section \<open>Invariants and valid states\<close>

text \<open>
  The invariant of the aggregate on transaction hashes: no two confirmed transactions
  share a hash, and no hash is both confirmed and locked.
\<close>

definition hashes_unique :: "'sw SubWallets \<Rightarrow> bool" where
  "hashes_unique W =
     (distinct (map hash (transactions W)) \<and>
      set (map hash (transactions W)) \<inter> set (map hash (lockedTransactions W)) = {})"

text \<open>A list of entries is a \<open>Map\<close> when its keys are distinct.\<close>

definition Map_wf :: "('k \<times> 'v) list \<Rightarrow> bool" where
  "Map_wf m = distinct (map fst m)"

text \<open>
  A valid state, as far as serialisation needs it: the three kinds of map are maps,
  every subwallet is stored under the public spend key its serialised form carries,
  and a subwallet survives its own \<open>toJSON\<close> and \<open>fromJSON\<close>.
\<close>

definition SubWallets_valid ::
  "('sw \<Rightarrow> 'swj) \<Rightarrow> ('swj \<Rightarrow> 'sw) \<Rightarrow> ('swj \<Rightarrow> string) \<Rightarrow> 'sw SubWallets \<Rightarrow> bool" where
  "SubWallets_valid SubWallet_toJSON SubWallet_fromJSON json_publicSpendKey W =
     (Map_wf (subWallets W) \<and> Map_wf (transactionPrivateKeys W) \<and>
      (\<forall>t\<in>set (transactions W). Map_wf (transfers t)) \<and>
      (\<forall>t\<in>set (lockedTransactions W). Map_wf (transfers t)) \<and>
      (\<forall>(k, sw)\<in>set (subWallets W).
         json_publicSpendKey (SubWallet_toJSON sw) = k \<and>
         SubWallet_fromJSON (SubWallet_toJSON sw) = sw))"

section \<open>Example states\<close>

text \<open>
  In the examples a subwallet is a stub: its public spend key, the balance pair it
  reports at every height, and its key images. It serialises to itself.
\<close>

record StubSubWallet =
  stub_publicSpendKey :: string
  stub_balance :: "number \<times> number"
  stub_keyImages :: "string list"

definition stub_getBalance :: "StubSubWallet \<Rightarrow> number \<Rightarrow> number \<times> number" where
  "stub_getBalance sw currentHeight = stub_balance sw"

definition stub_hasKeyImage :: "StubSubWallet \<Rightarrow> string \<Rightarrow> bool" where
  "stub_hasKeyImage sw keyImage = (keyImage \<in> set (stub_keyImages sw))"

definition example_tx :: "string \<Rightarrow> number \<Rightarrow> Transaction" where
  "example_tx h n =
     \<lparr>transfers = [(''k1'', 40), (''k2'', - 15)], hash = h, fee = 10, blockHeight = n,
      timestamp = 1540000000, paymentID = [], unlockTime = 0,
      isCoinbaseTransaction = False\<rparr>"

definition example_wallet :: "number \<Rightarrow> StubSubWallet SubWallets" where
  "example_wallet unlocked =
     \<lparr>isViewWallet = False,
      publicSpendKeys = [''k1'', ''k2''],
      subWallets =
        [(''k1'', \<lparr>stub_publicSpendKey = ''k1'', stub_balance = (unlocked, 7),
                   stub_keyImages = [''ki1'', ''ki2'']\<rparr>),
         (''k2'', \<lparr>stub_publicSpendKey = ''k2'', stub_balance = (5, 0),
                   stub_keyImages = [''ki3'']\<rparr>)],
      transactions = [example_tx ''h1'' 5, example_tx ''h2'' 9],
      lockedTransactions = [example_tx ''h3'' 0],
      privateViewKey = ''v'',
      transactionPrivateKeys = [(''h3'', ''p3'')]\<rparr>"




section \<open>Facts shared by the proofs\<close>

lemma isInteger_iff_Ints: "isInteger x \<longleftrightarrow> x \<in> \<int>"
  unfolding isInteger_def by (auto simp: Ints_def)







section \<open>validateAmount\<close>

text \<open>
  C1. A fee that is an integer and at least \<open>config.minimumFee\<close> makes
  \<open>validateAmount\<close> return \<open>NON_INTEGER_GIVEN\<close>: the code tests
  \<open>Number.isInteger(fee)\<close> and returns the error when the test holds. With an integer
  fee the result is therefore one of the two fee errors, whatever the destinations,
  the wallet and the source subwallets are: the balance and overflow checks are not
  reached.
\<close>

theorem validateAmount_integer_fee:
  "(fee' \<in> \<int> \<and> minimumFee \<le> fee' \<longrightarrow>
      validateAmount minimumFee gb destinations fee' keys W h =
        Inr (new_WalletError NON_INTEGER_GIVEN []))
   \<and> (fee' \<in> \<int> \<longrightarrow>
      validateAmount minimumFee gb destinations fee' keys W h =
        Inr (new_WalletError
               (if fee' < minimumFee then FEE_TOO_SMALL else NON_INTEGER_GIVEN) []))"
  by (simp add: validateAmount_def isInteger_iff_Ints)

theorem validateAmount_integer_fee_witness:
  "(10::rat) \<in> \<int> \<and> (10::rat) \<le> 10 \<and>
   validateAmount 10 stub_getBalance [(''TRTLdest'', 25)] 10 [''k1''] (example_wallet 100) 0 =
     Inr (new_WalletError NON_INTEGER_GIVEN [])"
proof -
  have a: "(10::rat) \<in> \<int>" by simp
  have b: "(10::rat) \<le> 10" by simp
  from validateAmount_integer_fee
    [of 10 10 stub_getBalance "[(''TRTLdest'', 25)]" "[''k1'']" "example_wallet 100" 0] a b
  have c: "validateAmount 10 stub_getBalance [(''TRTLdest'', 25)] 10 [''k1'']
             (example_wallet 100) 0 = Inr (new_WalletError NON_INTEGER_GIVEN [])"
    by blast
  from a b c show ?thesis by blast
qed






section \<open>SubWallets.getBalance\<close>



section \<open>SubWallets.addTransaction\<close>

text \<open>
  C3. \<open>addTransaction(tx)\<close> first removes every locked transaction with the hash of
  \<open>tx\<close>; it then throws, leaving the confirmed transactions as they were, if one of
  them has that hash, and otherwise appends \<open>tx\<close> to them. The state the call leaves
  behind, thrown or not, keeps the invariant that confirmed hashes are unique and
  that no hash is both confirmed and locked.
\<close>

theorem addTransaction_promotes_or_fails:
  "lockedTransactions (fst (addTransaction W tx)) =
     filter (\<lambda>t. hash t \<noteq> hash tx) (lockedTransactions W)
   \<and> (hash tx \<in> hash ` set (transactions W) \<longrightarrow>
        snd (addTransaction W tx) \<noteq> None \<and>
        transactions (fst (addTransaction W tx)) = transactions W)
   \<and> (hash tx \<notin> hash ` set (transactions W) \<longrightarrow>
        snd (addTransaction W tx) = None \<and>
        transactions (fst (addTransaction W tx)) = transactions W @ [tx])
   \<and> (hashes_unique W \<longrightarrow> hashes_unique (fst (addTransaction W tx)))"
proof -
  have ex: "list_ex (\<lambda>t. hash t = hash tx) (transactions W) \<longleftrightarrow>
            hash tx \<in> hash ` set (transactions W)"
    by (auto simp: list_ex_iff image_iff intro: sym)
  have l: "lockedTransactions (fst (addTransaction W tx)) =
     filter (\<lambda>t. hash t \<noteq> hash tx) (lockedTransactions W)"
    by (simp add: addTransaction_def Let_def)
  have t1: "hash tx \<in> hash ` set (transactions W) \<Longrightarrow>
        snd (addTransaction W tx) \<noteq> None \<and>
        transactions (fst (addTransaction W tx)) = transactions W"
    by (simp add: addTransaction_def Let_def ex)
  have t2: "hash tx \<notin> hash ` set (transactions W) \<Longrightarrow>
        snd (addTransaction W tx) = None \<and>
        transactions (fst (addTransaction W tx)) = transactions W @ [tx]"
    by (simp add: addTransaction_def Let_def ex)
  have inv: "hashes_unique (fst (addTransaction W tx))" if u: "hashes_unique W"
  proof (cases "hash tx \<in> hash ` set (transactions W)")
    case True
    with u l t1 show ?thesis by (auto simp: hashes_unique_def)
  next
    case False
    with u l t2 show ?thesis by (auto simp: hashes_unique_def)
  qed
  from l t1 t2 inv show ?thesis by blast
qed

theorem addTransaction_promotes_or_fails_witness:
  "hashes_unique (example_wallet 100)
   \<and> hashes_unique (fst (addTransaction (example_wallet 100) (example_tx ''h3'' 12)))
   \<and> snd (addTransaction (example_wallet 100) (example_tx ''h3'' 12)) = None
   \<and> transactions (fst (addTransaction (example_wallet 100) (example_tx ''h3'' 12))) =
       [example_tx ''h1'' 5, example_tx ''h2'' 9, example_tx ''h3'' 12]
   \<and> lockedTransactions (fst (addTransaction (example_wallet 100) (example_tx ''h3'' 12))) = []
   \<and> snd (addTransaction (example_wallet 100) (example_tx ''h2'' 12)) \<noteq> None"
proof -
  have u: "hashes_unique (example_wallet 100)"
    by (simp add: hashes_unique_def example_wallet_def example_tx_def)
  have n3: "hash (example_tx ''h3'' 12) \<notin> hash ` set (transactions (example_wallet 100))"
    by (simp add: example_wallet_def example_tx_def)
  have n2: "hash (example_tx ''h2'' 12) \<in> hash ` set (transactions (example_wallet 100))"
    by (simp add: example_wallet_def example_tx_def)
  note t3 = addTransaction_promotes_or_fails[of "example_wallet 100" "example_tx ''h3'' 12"]
  note t2 = addTransaction_promotes_or_fails[of "example_wallet 100" "example_tx ''h2'' 12"]
  from t3 u
  have a: "hashes_unique (fst (addTransaction (example_wallet 100) (example_tx ''h3'' 12)))"
    by blast
  from t3 n3 have b: "snd (addTransaction (example_wallet 100) (example_tx ''h3'' 12)) = None"
    by blast
  from t3 n3
  have c: "transactions (fst (addTransaction (example_wallet 100) (example_tx ''h3'' 12))) =
       [example_tx ''h1'' 5, example_tx ''h2'' 9, example_tx ''h3'' 12]"
    by (simp add: example_wallet_def)
  from t3
  have d: "lockedTransactions (fst (addTransaction (example_wallet 100) (example_tx ''h3'' 12))) = []"
    by (simp add: example_wallet_def example_tx_def)
  from t2 n2 have e: "snd (addTransaction (example_wallet 100) (example_tx ''h2'' 12)) \<noteq> None"
    by blast
  from u a b c d e show ?thesis by blast
qed

section \<open>SubWallets.removeForkedTransactions\<close>

text \<open>
  C4. After \<open>removeForkedTransactions(h)\<close> no confirmed transaction has a block
  height of \<open>h\<close> or more, the confirmed transactions are exactly those of before with
  a block height below \<open>h\<close>, in their order, and the locked transactions are what
  they were.
\<close>

theorem removeForkedTransactions_confirmed_only:
  "(\<forall>tx\<in>set (transactions (removeForkedTransactions rf W h)). \<not> blockHeight tx \<ge> h)
   \<and> transactions (removeForkedTransactions rf W h) =
       filter (\<lambda>tx. blockHeight tx < h) (transactions W)
   \<and> lockedTransactions (removeForkedTransactions rf W h) = lockedTransactions W"
  by (simp add: removeForkedTransactions_def not_le)

theorem removeForkedTransactions_confirmed_only_witness:
  "transactions (removeForkedTransactions (\<lambda>sw h. sw) (example_wallet 100) 9) =
     [example_tx ''h1'' 5]
   \<and> lockedTransactions (removeForkedTransactions (\<lambda>sw h. sw) (example_wallet 100) 9) =
       [example_tx ''h3'' 0]"
  using removeForkedTransactions_confirmed_only[of "\<lambda>sw h. sw" "example_wallet 100" 9]
  by (simp add: example_wallet_def example_tx_def)

section \<open>SubWallets.getKeyImageOwner\<close>

lemma getKeyImageOwner_loop_found:
  "getKeyImageOwner_loop hk m ki = (True, pk) \<Longrightarrow> distinct (map fst m) \<Longrightarrow>
   \<exists>sw. map_of m pk = Some sw \<and> hk sw ki"
proof (induction m)
  case Nil
  then show ?case by simp
next
  case (Cons e m)
  obtain k sw where e: "e = (k, sw)" by (cases e)
  show ?case
  proof (cases "hk sw ki")
    case True
    with Cons.prems e show ?thesis by simp
  next
    case False
    with Cons.prems e have r: "getKeyImageOwner_loop hk m ki = (True, pk)"
      and d: "distinct (map fst m)"
      by simp_all
    from Cons.IH[OF r d] obtain sw' where s: "map_of m pk = Some sw'" "hk sw' ki" by blast
    from s(1) have "pk \<in> fst ` set m" by (metis map_of_eq_None_iff option.distinct(1))
    with Cons.prems(2) e have "pk \<noteq> k" by auto
    with s e show ?thesis by simp
  qed
qed

lemma getKeyImageOwner_loop_none:
  "getKeyImageOwner_loop hk m ki = (False, []) \<longleftrightarrow> \<not> (\<exists>e\<in>set m. hk (snd e) ki)"
proof (induction hk m ki rule: getKeyImageOwner_loop.induct)
  case (1 hk ki)
  show ?case by simp
next
  case (2 hk pubKey subWallet rest ki)
  show ?case
  proof (cases "hk subWallet ki")
    case True
    then show ?thesis by simp
  next
    case False
    with 2 show ?thesis by simp
  qed
qed

lemma getKeyImageOwner_loop_some:
  assumes "\<exists>e\<in>set m. hk (snd e) ki"
  shows "\<exists>pk. getKeyImageOwner_loop hk m ki = (True, pk)"
  using assms
proof (induction hk m ki rule: getKeyImageOwner_loop.induct)
  case (1 hk ki)
  then show ?case by simp
next
  case (2 hk pubKey subWallet rest ki)
  show ?case
  proof (cases "hk subWallet ki")
    case True
    then show ?thesis by simp
  next
    case False
    with 2 show ?thesis by simp
  qed
qed

text \<open>
  C6. For a view wallet \<open>getKeyImageOwner\<close> returns \<open>(false, '')\<close>. Otherwise it
  returns either \<open>(true, pk)\<close>, where the subwallet stored under \<open>pk\<close> has the key
  image, or \<open>(false, '')\<close>, and the latter exactly when no subwallet of the wallet
  has the key image. \<open>SubWallet.hasKeyImage\<close> is the argument \<open>hk\<close>.
\<close>

theorem getKeyImageOwner_spec:
  "(isViewWallet W \<longrightarrow> getKeyImageOwner hk W ki = (False, []))
   \<and> (\<not> isViewWallet W \<and> distinct (map fst (subWallets W)) \<longrightarrow>
        ((\<exists>pk sw. getKeyImageOwner hk W ki = (True, pk) \<and>
                  map_of (subWallets W) pk = Some sw \<and> hk sw ki)
         \<or> getKeyImageOwner hk W ki = (False, []))
        \<and> (getKeyImageOwner hk W ki = (False, []) \<longleftrightarrow>
             \<not> (\<exists>pk sw. map_of (subWallets W) pk = Some sw \<and> hk sw ki)))"
proof (intro conjI impI)
  show "getKeyImageOwner hk W ki = (False, [])" if "isViewWallet W"
    using that by (simp add: getKeyImageOwner_def)
next
  assume a: "\<not> isViewWallet W \<and> distinct (map fst (subWallets W))"
  then have g: "getKeyImageOwner hk W ki = getKeyImageOwner_loop hk (subWallets W) ki"
    by (simp add: getKeyImageOwner_def)
  show "(\<exists>pk sw. getKeyImageOwner hk W ki = (True, pk) \<and>
                  map_of (subWallets W) pk = Some sw \<and> hk sw ki)
         \<or> getKeyImageOwner hk W ki = (False, [])"
  proof (cases "\<exists>e\<in>set (subWallets W). hk (snd e) ki")
    case True
    from getKeyImageOwner_loop_some[of "subWallets W" hk ki, OF this]
    obtain pk where "getKeyImageOwner_loop hk (subWallets W) ki = (True, pk)" by auto
    with getKeyImageOwner_loop_found[OF this] a g show ?thesis by auto
  next
    case False
    with getKeyImageOwner_loop_none[of hk "subWallets W" ki] g show ?thesis by auto
  qed
next
  assume a: "\<not> isViewWallet W \<and> distinct (map fst (subWallets W))"
  then have g: "getKeyImageOwner hk W ki = getKeyImageOwner_loop hk (subWallets W) ki"
    by (simp add: getKeyImageOwner_def)
  from a have mem: "(\<exists>pk sw. map_of (subWallets W) pk = Some sw \<and> hk sw ki) \<longleftrightarrow>
               (\<exists>e\<in>set (subWallets W). hk (snd e) ki)"
    by (force dest: map_of_SomeD)
  show "getKeyImageOwner hk W ki = (False, []) \<longleftrightarrow>
             \<not> (\<exists>pk sw. map_of (subWallets W) pk = Some sw \<and> hk sw ki)"
    unfolding mem g by (rule getKeyImageOwner_loop_none)
qed

theorem getKeyImageOwner_spec_witness:
  "getKeyImageOwner stub_hasKeyImage (example_wallet 100) ''ki3'' = (True, ''k2'')
   \<and> getKeyImageOwner stub_hasKeyImage (example_wallet 100) ''ki9'' = (False, [])
   \<and> getKeyImageOwner stub_hasKeyImage ((example_wallet 100)\<lparr>isViewWallet := True\<rparr>) ''ki3'' =
       (False, [])"
proof -
  have v: "isViewWallet ((example_wallet 100)\<lparr>isViewWallet := True\<rparr>)" by simp
  have nv: "\<not> isViewWallet (example_wallet 100) \<and>
            distinct (map fst (subWallets (example_wallet 100)))"
    by (simp add: example_wallet_def)
  have own: "\<exists>sw. map_of (subWallets (example_wallet 100)) ''k2'' = Some sw \<and>
                  stub_hasKeyImage sw ''ki3''"
    by (simp add: example_wallet_def stub_hasKeyImage_def)
  have only: "\<And>pk sw. map_of (subWallets (example_wallet 100)) pk = Some sw \<Longrightarrow>
                stub_hasKeyImage sw ''ki3'' \<Longrightarrow> pk = ''k2''"
    by (auto simp: example_wallet_def stub_hasKeyImage_def split: if_splits)
  have none: "\<not> (\<exists>pk sw. map_of (subWallets (example_wallet 100)) pk = Some sw \<and>
                    stub_hasKeyImage sw ''ki9'')"
    by (auto simp: example_wallet_def stub_hasKeyImage_def split: if_splits)
  note t = getKeyImageOwner_spec[of _ stub_hasKeyImage]
  from t[of "(example_wallet 100)\<lparr>isViewWallet := True\<rparr>" "''ki3''"] v
  have a: "getKeyImageOwner stub_hasKeyImage ((example_wallet 100)\<lparr>isViewWallet := True\<rparr>)
             ''ki3'' = (False, [])"
    by blast
  from t[of "example_wallet 100" "''ki9''"] nv none
  have b: "getKeyImageOwner stub_hasKeyImage (example_wallet 100) ''ki9'' = (False, [])"
    by blast
  from t[of "example_wallet 100" "''ki3''"] nv own
  have "\<exists>pk sw. getKeyImageOwner stub_hasKeyImage (example_wallet 100) ''ki3'' = (True, pk) \<and>
                map_of (subWallets (example_wallet 100)) pk = Some sw \<and>
                stub_hasKeyImage sw ''ki3''"
    by blast
  with only
  have c: "getKeyImageOwner stub_hasKeyImage (example_wallet 100) ''ki3'' = (True, ''k2'')"
    by blast
  from a b c show ?thesis by blast
qed

section \<open>ConventionalDaemon.updateDaemonInfo\<close>



section \<open>Serialisation\<close>

lemma Map_set_fresh: "k \<notin> fst ` set m \<Longrightarrow> Map_set m k v = m @ [(k, v)]"
  by (induction m) auto

lemma foldl_Map_set_distinct:
  "distinct (map fst (acc @ entries)) \<Longrightarrow>
   foldl (\<lambda>m (k, v). Map_set m k v) acc entries = acc @ entries"
proof (induction entries arbitrary: acc)
  case Nil
  then show ?case by simp
next
  case (Cons e entries)
  obtain k v where e: "e = (k, v)" by (cases e)
  from Cons.prems e have fresh: "k \<notin> fst ` set acc" by auto
  from Cons.prems e have "distinct (map fst ((acc @ [(k, v)]) @ entries))" by simp
  from Cons.IH[OF this] show ?case by (simp add: e Map_set_fresh[OF fresh])
qed

lemma new_Map_distinct: "distinct (map fst entries) \<Longrightarrow> new_Map entries = entries"
  using foldl_Map_set_distinct[of "[]" entries] by (simp add: new_Map_def)

lemma Transaction_roundtrip:
  assumes "Map_wf (transfers t)"
  shows "Transaction_fromJSON (Transaction_toJSON t) = t"
proof -
  have m: "map (\<lambda>x. (publicKey x, amount x)) (transfersToVector (transfers t)) = transfers t"
    by (simp add: transfersToVector_def o_def case_prod_unfold)
  from assms have "new_Map (transfers t) = transfers t"
    by (simp add: Map_wf_def new_Map_distinct)
  then show ?thesis
    by (simp add: Transaction_fromJSON_def Transaction_toJSON_def m)
qed

lemma Transactions_roundtrip:
  "\<forall>t\<in>set ts. Map_wf (transfers t) \<Longrightarrow>
   map Transaction_fromJSON (map Transaction_toJSON ts) = ts"
  by (induction ts) (simp_all add: Transaction_roundtrip)

lemma subWallets_roundtrip:
  assumes "\<forall>(k, sw)\<in>set m. keyJ (toJ sw) = k \<and> fromJ (toJ sw) = sw"
  shows "map (\<lambda>x. (keyJ x, fromJ x)) (map toJ (map snd m)) = m"
  using assms by (induction m) auto

text \<open>
  C5. Serialisation round-trips. For a valid state \<open>W\<close> (the maps are maps, every
  subwallet is stored under its own public spend key and survives its own
  serialisation), \<open>SubWallets.fromJSON(W.toJSON())\<close> is \<open>W\<close>, field by field and with
  the entries of every map in their order; and for a transaction \<open>t\<close> (its transfers
  being a map), \<open>Transaction.fromJSON(t.toJSON())\<close> is \<open>t\<close>.
\<close>

theorem serialization_roundtrip:
  "(SubWallets_valid toJ fromJ keyJ W \<longrightarrow>
      SubWallets_fromJSON fromJ keyJ (SubWallets_toJSON toJ W) = W)
   \<and> (Map_wf (transfers t) \<longrightarrow> Transaction_fromJSON (Transaction_toJSON t) = t)"
proof (intro conjI impI)
  assume v: "SubWallets_valid toJ fromJ keyJ W"
  from v have sw: "map (\<lambda>x. (keyJ x, fromJ x)) (map toJ (map snd (subWallets W))) = subWallets W"
    by (intro subWallets_roundtrip) (simp add: SubWallets_valid_def)
  from v have swm: "new_Map (subWallets W) = subWallets W"
    by (simp add: SubWallets_valid_def Map_wf_def new_Map_distinct)
  have pk: "map (\<lambda>x. (transactionHash x, txPrivateKey x))
              (txPrivateKeysToVector (transactionPrivateKeys W)) = transactionPrivateKeys W"
    by (simp add: txPrivateKeysToVector_def o_def case_prod_unfold)
  from v have pkm: "new_Map (transactionPrivateKeys W) = transactionPrivateKeys W"
    by (simp add: SubWallets_valid_def Map_wf_def new_Map_distinct)
  from v have ts: "map Transaction_fromJSON (map Transaction_toJSON (transactions W)) =
                   transactions W"
    by (intro Transactions_roundtrip) (simp add: SubWallets_valid_def)
  from v have ls: "map Transaction_fromJSON (map Transaction_toJSON (lockedTransactions W)) =
                   lockedTransactions W"
    by (intro Transactions_roundtrip) (simp add: SubWallets_valid_def)
  show "SubWallets_fromJSON fromJ keyJ (SubWallets_toJSON toJ W) = W"
    using sw swm pk pkm ts ls
    by (simp add: SubWallets_fromJSON_def SubWallets_toJSON_def)
next
  assume "Map_wf (transfers t)"
  then show "Transaction_fromJSON (Transaction_toJSON t) = t" by (rule Transaction_roundtrip)
qed

theorem serialization_roundtrip_witness:
  "SubWallets_valid (\<lambda>sw. sw) (\<lambda>j. j) stub_publicSpendKey (example_wallet 100)
   \<and> SubWallets_fromJSON (\<lambda>j. j) stub_publicSpendKey
       (SubWallets_toJSON (\<lambda>sw. sw) (example_wallet 100)) = example_wallet 100
   \<and> Map_wf (transfers (example_tx ''h1'' 5))
   \<and> Transaction_fromJSON (Transaction_toJSON (example_tx ''h1'' 5)) = example_tx ''h1'' 5"
proof -
  have v: "SubWallets_valid (\<lambda>sw. sw) (\<lambda>j. j) stub_publicSpendKey (example_wallet 100)"
    by (simp add: SubWallets_valid_def Map_wf_def example_wallet_def example_tx_def)
  have w: "Map_wf (transfers (example_tx ''h1'' 5))"
    by (simp add: Map_wf_def example_tx_def)
  note t = serialization_roundtrip
    [of "\<lambda>sw. sw" "\<lambda>j. j" stub_publicSpendKey "example_wallet 100" "example_tx ''h1'' 5"]
  from t v
  have a: "SubWallets_fromJSON (\<lambda>j. j) stub_publicSpendKey
       (SubWallets_toJSON (\<lambda>sw. sw) (example_wallet 100)) = example_wallet 100"
    by blast
  from t w
  have b: "Transaction_fromJSON (Transaction_toJSON (example_tx ''h1'' 5)) = example_tx ''h1'' 5"
    by blast
  from v a w b show ?thesis by blast
qed

section \<open>validateAddresses\<close>




end
